theory Spec2Isabelle
  imports Complex_Main
begin

section \<open>JavaScript values used by the batch service\<close>

text \<open>
  A JavaScript number is NaN, one of the two infinities, or a finite value. The finite
  values are taken as reals: nothing below depends on rounding, only on the distinction
  between NaN, the infinities, zero and the sign.
\<close>

datatype jsnum = NaN | PosInf | NegInf | Fin real

text \<open>A JSON scalar, as the external API may deliver it in a field.\<close>

datatype jsval = JUndefined | JNull | JBool bool | JNum jsnum | JStr string

text \<open>A \<open>Date\<close> object: an invalid date, or milliseconds since the epoch.\<close>

datatype jsdate = InvalidDate | DateAt int

text \<open>\<open>isNaN(n)\<close>.\<close>

fun isNaN :: "jsnum \<Rightarrow> bool" where
  "isNaN NaN = True"
| "isNaN PosInf = False"
| "isNaN NegInf = False"
| "isNaN (Fin x) = False"

text \<open>Truthiness of a number: NaN and zero are falsy.\<close>

fun truthy :: "jsnum \<Rightarrow> bool" where
  "truthy NaN = False"
| "truthy PosInf = True"
| "truthy NegInf = True"
| "truthy (Fin x) = (if x = 0 then False else True)"

text \<open>\<open>n <= 0\<close>; every comparison with NaN is false.\<close>

fun le_zero :: "jsnum \<Rightarrow> bool" where
  "le_zero NaN = False"
| "le_zero PosInf = False"
| "le_zero NegInf = True"
| "le_zero (Fin x) = (x \<le> 0)"

text \<open>
  \<open>a === b\<close> on a possibly missing number (\<open>None\<close> is \<open>undefined\<close>): NaN is not
  equal to itself.
\<close>

fun strict_eq :: "jsnum option \<Rightarrow> jsnum option \<Rightarrow> bool" where
  "strict_eq None None = True"
| "strict_eq (Some a) (Some b) = (if isNaN a then False else a = b)"
| "strict_eq None (Some b) = False"
| "strict_eq (Some a) None = False"

text \<open>\<open>String.prototype.trim\<close>, on the ASCII white space characters.\<close>

definition is_ws :: "char \<Rightarrow> bool" where
  "is_ws c = (c \<in> set [CHR '' '', CHR 0x09, CHR 0x0A, CHR 0x0B, CHR 0x0C, CHR 0x0D])"

definition trim :: "string \<Rightarrow> string" where
  "trim s = rev (dropWhile is_ws (rev (dropWhile is_ws s)))"

text \<open>\<open>Array.prototype.join\<close> with a separator.\<close>

fun join :: "string \<Rightarrow> string list \<Rightarrow> string" where
  "join sep [] = []"
| "join sep [x] = x"
| "join sep (x # y # ys) = x @ sep @ join sep (y # ys)"

text \<open>\<open>String.prototype.includes\<close>.\<close>

fun starts_with :: "string \<Rightarrow> string \<Rightarrow> bool" where
  "starts_with [] s = True"
| "starts_with (p # ps) [] = False"
| "starts_with (p # ps) (c # cs) = (if p = c then starts_with ps cs else False)"

fun str_includes :: "string \<Rightarrow> string \<Rightarrow> bool" where
  "str_includes [] pat = starts_with pat []"
| "str_includes (c # cs) pat = (if starts_with pat (c # cs) then True else str_includes cs pat)"

text \<open>
  \<open>Array.prototype.findIndex\<close>: the position of the first element that satisfies the
  predicate, \<open>-1\<close> when there is none.
\<close>

fun findIndex_from :: "('a \<Rightarrow> bool) \<Rightarrow> 'a list \<Rightarrow> int \<Rightarrow> int" where
  "findIndex_from p [] i = - 1"
| "findIndex_from p (x # xs) i = (if p x then i else findIndex_from p xs (i + 1))"

definition findIndex :: "('a \<Rightarrow> bool) \<Rightarrow> 'a list \<Rightarrow> int" where
  "findIndex p xs = findIndex_from p xs 0"

text \<open>The decimal numeral of an integer, as a template literal prints it.\<close>

definition digit_char :: "nat \<Rightarrow> char" where
  "digit_char d = ''0123456789'' ! d"

fun show_nat :: "nat \<Rightarrow> string" where
  "show_nat n = (if n < 10 then [digit_char n] else show_nat (n div 10) @ [digit_char (n mod 10)])"

definition show_int :: "int \<Rightarrow> string" where
  "show_int i = (if i < 0 then CHR ''-'' # show_nat (nat (- i)) else show_nat (nat i))"

text \<open>
  The parts of the JavaScript runtime and of the database driver that the service calls
  and that this development does not fix: the clock, date parsing, the conversions between
  numbers and strings, and the driver's conversion of a table row to the column types of
  \<open>RecordDataType\<close> (\<open>Inl\<close> with the driver's message when it rejects a value).
  The general theorems below hold for every runtime; the examples are evaluated in the
  runtime \<open>js0\<close> defined further down.

  \<open>RecordDataType\<close> is a row of the table type of that name (the \<open>source\<close> of the
  update), with \<open>Value\<close> in hundredths; \<open>table_row\<close> is a row as the service adds
  it to the table parameter, with JavaScript values.
\<close>

record RecordDataType =
  src_Id :: int
  src_Name :: string
  src_Value :: int
  src_Status :: string
  src_UpdatedAt :: int

record table_row =
  row_id :: jsnum
  row_name :: string
  row_value :: jsnum
  row_status :: string
  row_updatedAt :: jsdate

record runtime =
  now :: int
  Date_parse :: "string \<Rightarrow> jsdate"
  StringToNumber :: "string \<Rightarrow> jsnum"
  Number_toString :: "jsnum \<Rightarrow> string"
  parseInt :: "string \<Rightarrow> jsnum"
  parseFloat :: "string \<Rightarrow> jsnum"
  marshal :: "table_row \<Rightarrow> string + RecordDataType"

text \<open>\<open>Number(v)\<close>.\<close>

fun Number :: "runtime \<Rightarrow> jsval \<Rightarrow> jsnum" where
  "Number js JUndefined = NaN"
| "Number js JNull = Fin 0"
| "Number js (JBool b) = (if b then Fin 1 else Fin 0)"
| "Number js (JNum n) = n"
| "Number js (JStr s) = StringToNumber js s"

text \<open>A template literal's rendering of a possibly missing number.\<close>

fun show_id :: "runtime \<Rightarrow> jsnum option \<Rightarrow> string" where
  "show_id js None = ''undefined''"
| "show_id js (Some n) = Number_toString js n"

section \<open>Records\<close>

text \<open>
  \<open>ExternalApiRecord\<close> and \<open>RecordData\<close>. A field is \<open>None\<close> when the property is
  missing. The raw \<open>value\<close> is kept as an arbitrary scalar, because the service coerces it
  with \<open>Number\<close>.
\<close>

record ExternalApiRecord =
  ext_id :: "jsnum option"
  ext_name :: "string option"
  ext_value :: jsval
  ext_status :: "string option"
  lastModified :: "string option"

record RecordData =
  rec_id :: "jsnum option"
  rec_name :: string
  rec_value :: jsnum
  rec_status :: string
  updatedAt :: "jsdate option"

section \<open>transformExternalData\<close>

text \<open>
  \<^verbatim>\<open>name: record.name?.trim() || ''\<close>, \<^verbatim>\<open>value: Number(record.value) || 0\<close>,
  \<^verbatim>\<open>status: record.status?.trim() || 'Unknown'\<close>,
  \<^verbatim>\<open>updatedAt: record.lastModified ? new Date(record.lastModified) : new Date()\<close>.
\<close>

definition transform_name :: "string option \<Rightarrow> string" where
  "transform_name n = (case n of None \<Rightarrow> [] | Some s \<Rightarrow> (if trim s = [] then [] else trim s))"

definition transform_value :: "runtime \<Rightarrow> jsval \<Rightarrow> jsnum" where
  "transform_value js v = (if truthy (Number js v) then Number js v else Fin 0)"

definition transform_status :: "string option \<Rightarrow> string" where
  "transform_status s =
     (case s of None \<Rightarrow> ''Unknown'' | Some t \<Rightarrow> (if trim t = [] then ''Unknown'' else trim t))"

definition transform_updatedAt :: "runtime \<Rightarrow> string option \<Rightarrow> jsdate" where
  "transform_updatedAt js l =
     (case l of
        None \<Rightarrow> DateAt (now js)
      | Some s \<Rightarrow> (if s = [] then DateAt (now js) else Date_parse js s))"

definition transform_record :: "runtime \<Rightarrow> ExternalApiRecord \<Rightarrow> RecordData" where
  "transform_record js r =
     \<lparr> rec_id = ext_id r,
       rec_name = transform_name (ext_name r),
       rec_value = transform_value js (ext_value r),
       rec_status = transform_status (ext_status r),
       updatedAt = Some (transform_updatedAt js (lastModified r)) \<rparr>"

definition transformExternalData :: "runtime \<Rightarrow> ExternalApiRecord list \<Rightarrow> RecordData list" where
  "transformExternalData js externalRecords = map (transform_record js) externalRecords"

section \<open>validateRecords\<close>

text \<open>The reasons collected for one record, in the order of the checks.\<close>

definition check_id :: "RecordData \<Rightarrow> string list" where
  "check_id r =
     (case rec_id r of
        None \<Rightarrow> [''Invalid or missing ID'']
      | Some n \<Rightarrow>
          (if truthy n then (if le_zero n then [''Invalid or missing ID''] else [])
           else [''Invalid or missing ID'']))"

definition check_name :: "RecordData \<Rightarrow> string list" where
  "check_name r =
     (if rec_name r = [] then [''Name is required''] else [])
     @ (if rec_name r = [] then []
        else if 255 < length (rec_name r) then [''Name exceeds maximum length (255 characters)'']
        else [])"

definition check_value :: "RecordData \<Rightarrow> string list" where
  "check_value r = (if isNaN (rec_value r) then [''Invalid value format''] else [])"

definition check_status :: "RecordData \<Rightarrow> string list" where
  "check_status r = (if rec_status r = [] then [''Status is required''] else [])"

definition check_duplicate :: "RecordData list \<Rightarrow> RecordData \<Rightarrow> string list" where
  "check_duplicate validRecords r =
     (let duplicateIndex = findIndex (\<lambda>v. strict_eq (rec_id v) (rec_id r)) validRecords
      in if duplicateIndex = - 1 then []
         else [''Duplicate ID found at index '' @ show_int duplicateIndex])"

definition recordErrors :: "RecordData list \<Rightarrow> RecordData \<Rightarrow> string list" where
  "recordErrors validRecords r =
     check_id r @ check_name r @ check_value r @ check_status r @ check_duplicate validRecords r"

definition error_line :: "runtime \<Rightarrow> nat \<Rightarrow> RecordData \<Rightarrow> string list \<Rightarrow> string" where
  "error_line js index r errs =
     ''Record '' @ show_nat (index + 1) @ '' (ID: '' @ show_id js (rec_id r) @ ''): ''
       @ join '', '' errs"

text \<open>
  The \<open>forEach\<close> loop: the state is the pair of \<open>validRecords\<close> and the caller's
  \<open>errors\<close> array, which the loop extends.
\<close>

fun validate_loop ::
  "runtime \<Rightarrow> RecordData list \<Rightarrow> nat \<Rightarrow> RecordData list \<times> string list
    \<Rightarrow> RecordData list \<times> string list" where
  "validate_loop js [] index st = st"
| "validate_loop js (r # rs) index (validRecords, errors) =
     (if recordErrors validRecords r = []
      then validate_loop js rs (index + 1) (validRecords @ [r], errors)
      else validate_loop js rs (index + 1)
             (validRecords, errors @ [error_line js index r (recordErrors validRecords r)]))"

definition validateRecords ::
  "runtime \<Rightarrow> RecordData list \<Rightarrow> string list \<Rightarrow> RecordData list \<times> string list" where
  "validateRecords js records errors = validate_loop js records 0 ([], errors)"

section \<open>The store\<close>

text \<open>
  A row of \<open>YourTableName\<close> (the \<open>target\<close> of the update). \<open>Value\<close> is
  \<open>DECIMAL(10,2)\<close>, held in hundredths; the two timestamps are nullable.
\<close>

record row =
  tgt_Id :: int
  tgt_Name :: string
  tgt_Value :: int
  tgt_Status :: string
  isOpen :: bool
  tgt_CreatedAt :: "int option"
  tgt_UpdatedAt :: "int option"

text \<open>
  The database: the catalog views that the preflight reads (\<open>sys.table_types\<close>,
  \<open>sys.procedures\<close>, and the parameters of \<open>sp_UpdateOpenRecords\<close> with their type
  names) and the table.
\<close>

record database =
  table_types :: "string list"
  procedures :: "string list"
  parameters :: "(string \<times> string) list"
  YourTableName :: "row list"

text \<open>
  What can go wrong in the store while the procedure is executed: nothing, a failure of the
  request before the procedure runs, or a failure of the \<open>UPDATE\<close> statement after it
  has written the first \<open>k\<close> rows of the table.
\<close>

datatype fault = NoFault | RequestFault string | UpdateFault nat string

record stats =
  UpdatedCount :: int
  SkippedCount :: int
  TotalInputRecords :: int

section \<open>sp_UpdateOpenRecords\<close>

text \<open>
  \<^verbatim>\<open>UPDATE target SET ... FROM YourTableName AS target
  INNER JOIN @RecordData AS source ON target.Id = source.Id WHERE target.isOpen = 1\<close>.
  Where several source rows carry the Id of one target row, the first one is applied.
\<close>

definition joined :: "RecordDataType list \<Rightarrow> row \<Rightarrow> RecordDataType option" where
  "joined source target = find (\<lambda>s. tgt_Id target = src_Id s) source"

definition update_target :: "RecordDataType list \<Rightarrow> row \<Rightarrow> row" where
  "update_target source target =
     (if isOpen target then
        (case joined source target of
           None \<Rightarrow> target
         | Some s \<Rightarrow>
             target\<lparr> tgt_Name := src_Name s, tgt_Value := src_Value s,
                     tgt_Status := src_Status s, tgt_UpdatedAt := Some (src_UpdatedAt s) \<rparr>)
      else target)"

definition is_updated :: "RecordDataType list \<Rightarrow> row \<Rightarrow> bool" where
  "is_updated source target =
     (if isOpen target then (case joined source target of None \<Rightarrow> False | Some s \<Rightarrow> True)
      else False)"

text \<open>
  The statement returns \<open>@@ROWCOUNT\<close>, or fails and leaves the rows it has written.
  (A fault of the request never reaches the statement: see \<open>execute\<close> below.)
\<close>

definition UPDATE_target ::
  "fault \<Rightarrow> RecordDataType list \<Rightarrow> row list \<Rightarrow> (string + int) \<times> row list" where
  "UPDATE_target f source rows =
     (case f of
        UpdateFault k msg \<Rightarrow>
          (Inl msg, map (update_target source) (take k rows) @ drop k rows)
      | RequestFault msg \<Rightarrow>
          (Inr (int (length (filter (is_updated source) rows))), map (update_target source) rows)
      | NoFault \<Rightarrow>
          (Inr (int (length (filter (is_updated source) rows))), map (update_target source) rows))"

text \<open>
  The procedure: \<open>BEGIN TRANSACTION\<close> remembers the table; a failure inside \<open>TRY\<close>
  reaches \<open>CATCH\<close>, which rolls back to the remembered table and throws the error again;
  otherwise the transaction commits and one row of statistics is selected.
\<close>

definition sp_UpdateOpenRecords ::
  "fault \<Rightarrow> RecordDataType list \<Rightarrow> row list \<Rightarrow> (string + stats list) \<times> row list" where
  "sp_UpdateOpenRecords f RecordData table =
     (let begun = table;
          total = int (length RecordData)
      in case UPDATE_target f RecordData table of
           (Inl msg, written) \<Rightarrow> (Inl msg, begun)
         | (Inr rowcount, written) \<Rightarrow>
             (Inr [\<lparr> UpdatedCount = rowcount, SkippedCount = total - rowcount,
                     TotalInputRecords = total \<rparr>],
              written))"

section \<open>updateOpenRecords\<close>

text \<open>The body of the \<open>forEach\<close> over the records: the row added to the table, or the error thrown.\<close>

definition or_zero :: "string \<Rightarrow> string" where
  "or_zero s = (if s = [] then ''0'' else s)"

definition table_row_of :: "runtime \<Rightarrow> RecordData \<Rightarrow> string + table_row" where
  "table_row_of js r =
     (let idv = parseInt js (case rec_id r of None \<Rightarrow> ''0''
                             | Some n \<Rightarrow> or_zero (Number_toString js n));
          namev = trim (rec_name r);
          valuev = parseFloat js (or_zero (Number_toString js (rec_value r)));
          statusv = trim (rec_status r);
          updatedAtv = (case updatedAt r of Some d \<Rightarrow> d | None \<Rightarrow> DateAt (now js))
      in if le_zero idv then Inl (''Invalid ID: '' @ show_id js (rec_id r))
         else if namev = [] then Inl (''Empty name for record ID: '' @ Number_toString js idv)
         else if isNaN valuev then Inl (''Invalid value for record ID: '' @ Number_toString js idv)
         else if statusv = [] then Inl (''Empty status for record ID: '' @ Number_toString js idv)
         else Inr \<lparr> row_id = idv, row_name = namev, row_value = valuev,
                    row_status = statusv, row_updatedAt = updatedAtv \<rparr>)"

fun add_rows :: "runtime \<Rightarrow> RecordData list \<Rightarrow> nat \<Rightarrow> table_row list \<Rightarrow> string + table_row list" where
  "add_rows js [] index rows = Inr rows"
| "add_rows js (r # rs) index rows =
     (case table_row_of js r of
        Inl msg \<Rightarrow> Inl (''Invalid data in record '' @ show_nat (index + 1) @ '': '' @ msg)
      | Inr trow \<Rightarrow> add_rows js rs (index + 1) (rows @ [trow]))"

text \<open>The driver converts the table parameter row by row and fails on the first bad value.\<close>

fun marshal_rows :: "runtime \<Rightarrow> table_row list \<Rightarrow> string + RecordDataType list" where
  "marshal_rows js [] = Inr []"
| "marshal_rows js (t # ts) =
     (case marshal js t of
        Inl msg \<Rightarrow> Inl msg
      | Inr s \<Rightarrow> (case marshal_rows js ts of Inl msg \<Rightarrow> Inl msg | Inr ss \<Rightarrow> Inr (s # ss)))"

text \<open>
  \<^verbatim>\<open>request.execute('sp_UpdateOpenRecords')\<close>: the request can fail before the
  procedure runs (a fault of the request, a missing table type or procedure, a value the
  driver rejects); otherwise the procedure runs on the table. The two messages of the
  server are shortened to the object they name.
\<close>

definition execute ::
  "runtime \<Rightarrow> fault \<Rightarrow> database \<Rightarrow> table_row list \<Rightarrow> (string + stats list) \<times> database" where
  "execute js f db table =
     (case f of
        RequestFault msg \<Rightarrow> (Inl msg, db)
      | _ \<Rightarrow>
        (if count_list (table_types db) ''RecordDataType'' = 0
         then (Inl ''Cannot find data type RecordDataType.'', db)
         else if count_list (procedures db) ''sp_UpdateOpenRecords'' = 0
         then (Inl ''Could not find stored procedure sp_UpdateOpenRecords.'', db)
         else (case marshal_rows js table of
                 Inl msg \<Rightarrow> (Inl msg, db)
               | Inr source \<Rightarrow>
                   (case sp_UpdateOpenRecords f source (YourTableName db) of
                      (res, table') \<Rightarrow> (res, db\<lparr> YourTableName := table' \<rparr>)))))"

text \<open>The \<open>catch\<close> block of \<open>updateOpenRecords\<close>: the message of the error it throws.\<close>

definition rethrown :: "string \<Rightarrow> string" where
  "rethrown message =
     (if str_includes message ''RecordDataType''
      then ''Table type 'RecordDataType' not found. Please ensure it exists in your database. Original error: '' @ message
      else if str_includes message ''sp_UpdateOpenRecords''
      then ''Stored procedure 'sp_UpdateOpenRecords' not found or has incorrect parameters. Original error: '' @ message
      else ''Failed to update records: '' @ message)"

record update_result =
  updated :: int
  skipped :: int

datatype call = Query string | HttpGet | Execute string

text \<open>
  \<open>updateOpenRecords\<close> returns the error thrown or the counts, the database after the
  call, and the calls made to the store. \<open>records\<close> is \<open>None\<close> for \<open>null\<close>.
  The counts are SQL integers; \<open>parseInt\<close> of the decimal numeral of an integer is
  that integer.
\<close>

definition updateOpenRecords ::
  "runtime \<Rightarrow> fault \<Rightarrow> RecordData list option \<Rightarrow> database
    \<Rightarrow> (string + update_result) \<times> database \<times> call list" where
  "updateOpenRecords js f records db =
     (case records of
        None \<Rightarrow> (Inr \<lparr> updated = 0, skipped = 0 \<rparr>, db, [])
      | Some rs \<Rightarrow>
          (if length rs = 0 then (Inr \<lparr> updated = 0, skipped = 0 \<rparr>, db, [])
           else
             (case add_rows js rs 0 [] of
                Inl msg \<Rightarrow> (Inl (rethrown msg), db, [])
              | Inr table \<Rightarrow>
                  (case execute js f db table of
                     (Inl msg, db') \<Rightarrow>
                       (Inl (rethrown msg), db', [Execute ''sp_UpdateOpenRecords''])
                   | (Inr recordset, db') \<Rightarrow>
                       (case recordset of
                          [] \<Rightarrow>
                            (Inl (rethrown ''Stored procedure did not return expected results''),
                             db', [Execute ''sp_UpdateOpenRecords''])
                        | st # others \<Rightarrow>
                            (Inr \<lparr> updated = UpdatedCount st, skipped = SkippedCount st \<rparr>,
                             db', [Execute ''sp_UpdateOpenRecords'']))))))"

section \<open>verifyDatabaseObjects\<close>

record verification =
  tableTypeExists :: bool
  storedProcExists :: bool
  issues :: "string list"

text \<open>
  The three catalog queries run in order inside one \<open>try\<close>; \<open>qf i\<close> is the message
  of the error that query \<open>i\<close> throws, if it throws. The \<open>catch\<close> adds one issue and
  keeps what was found before.
\<close>

definition quoted :: "string \<Rightarrow> string" where
  "quoted s = [CHR 0x22] @ s @ [CHR 0x22]"

definition verification_error :: "string \<Rightarrow> string" where
  "verification_error message = ''Error during verification: '' @ message"

definition parameter_issues :: "(string \<times> string) list \<Rightarrow> string list" where
  "parameter_issues params =
     (case find (\<lambda>p. fst p = ''@RecordData'') params of
        None \<Rightarrow> [''Stored procedure missing @RecordData parameter'']
      | Some recordDataParam \<Rightarrow>
          (if snd recordDataParam = ''RecordDataType'' then []
           else [''@RecordData parameter type is '' @ snd recordDataParam
                   @ '', expected RecordDataType'']))"

definition verifyDatabaseObjects ::
  "(nat \<Rightarrow> string option) \<Rightarrow> database \<Rightarrow> verification \<times> call list" where
  "verifyDatabaseObjects qf db =
     (case qf 0 of
        Some msg \<Rightarrow>
          (\<lparr> tableTypeExists = False, storedProcExists = False,
              issues = [verification_error msg] \<rparr>,
           [Query ''sys.table_types''])
      | None \<Rightarrow>
          (let tte = (0 < count_list (table_types db) ''RecordDataType'');
               issues1 = (if tte then []
                          else [''User-defined table type '' @ quoted ''RecordDataType''
                                  @ '' does not exist''])
           in case qf 1 of
                Some msg \<Rightarrow>
                  (\<lparr> tableTypeExists = tte, storedProcExists = False,
                      issues = issues1 @ [verification_error msg] \<rparr>,
                   [Query ''sys.table_types'', Query ''sys.procedures''])
              | None \<Rightarrow>
                  (let spe = (0 < count_list (procedures db) ''sp_UpdateOpenRecords'');
                       issues2 = issues1 @
                         (if spe then []
                          else [''Stored procedure '' @ quoted ''sp_UpdateOpenRecords''
                                  @ '' does not exist''])
                   in if spe then
                        (case qf 2 of
                           Some msg \<Rightarrow>
                             (\<lparr> tableTypeExists = tte, storedProcExists = spe,
                                 issues = issues2 @ [verification_error msg] \<rparr>,
                              [Query ''sys.table_types'', Query ''sys.procedures'',
                               Query ''sys.parameters''])
                         | None \<Rightarrow>
                             (\<lparr> tableTypeExists = tte, storedProcExists = spe,
                                 issues = issues2 @ parameter_issues (parameters db) \<rparr>,
                              [Query ''sys.table_types'', Query ''sys.procedures'',
                               Query ''sys.parameters'']))
                      else
                        (\<lparr> tableTypeExists = tte, storedProcExists = spe, issues = issues2 \<rparr>,
                         [Query ''sys.table_types'', Query ''sys.procedures'']))))"

section \<open>fetchAndUpdateRecords\<close>

text \<open>
  What the GET request to the external API gives: a timeout (\<open>ECONNABORTED\<close>), an
  error response with its status, another transport error, a body that is not an array,
  or an array of records.
\<close>

datatype response =
  Aborted | ErrorResponse nat string | TransportError | NotAnArray | Records "ExternalApiRecord list"

datatype HttpException = HttpException string nat

record report =
  fetched :: int
  rep_updated :: int
  rep_skipped :: int
  rep_errors :: "string list"

text \<open>
  The \<open>catch\<close> block turns every error thrown inside the \<open>try\<close>, the exception for a
  body that is not an array included, into the internal-server-error exception, unless
  the error carries the timeout code or a response status.
\<close>

definition failed :: HttpException where
  "failed = HttpException ''Failed to fetch and update records'' 500"

definition fetchAndUpdateRecords ::
  "runtime \<Rightarrow> (nat \<Rightarrow> string option) \<Rightarrow> fault \<Rightarrow> response \<Rightarrow> database
    \<Rightarrow> (HttpException + report) \<times> database \<times> call list" where
  "fetchAndUpdateRecords js qf f resp db =
     (case verifyDatabaseObjects qf db of
        (v, queries) \<Rightarrow>
          (if 0 < length (issues v)
           then (Inr \<lparr> fetched = 0, rep_updated = 0, rep_skipped = 0, rep_errors = issues v \<rparr>,
                 db, queries)
           else
             (case resp of
                Aborted \<Rightarrow> (Inl (HttpException ''API request timeout'' 408), db, queries @ [HttpGet])
              | ErrorResponse st statusText \<Rightarrow>
                  (Inl (HttpException
                          (''External API error: '' @ show_nat st @ '' - '' @ statusText) 502),
                   db, queries @ [HttpGet])
              | TransportError \<Rightarrow> (Inl failed, db, queries @ [HttpGet])
              | NotAnArray \<Rightarrow> (Inl failed, db, queries @ [HttpGet])
              | Records externalRecords \<Rightarrow>
                  (case validateRecords js (transformExternalData js externalRecords) [] of
                     (validRecords, errs) \<Rightarrow>
                       (if length validRecords = 0
                        then (Inr \<lparr> fetched = int (length externalRecords), rep_updated = 0,
                                    rep_skipped = int (length externalRecords),
                                    rep_errors = errs \<rparr>,
                              db, queries @ [HttpGet])
                        else
                          (case updateOpenRecords js f (Some validRecords) db of
                             (Inl msg, db', calls) \<Rightarrow>
                               (Inl failed, db', queries @ [HttpGet] @ calls)
                           | (Inr updateResult, db', calls) \<Rightarrow>
                               (Inr \<lparr> fetched = int (length externalRecords),
                                      rep_updated = updated updateResult,
                                      rep_skipped = skipped updateResult
                                        + (int (length externalRecords)
                                            - int (length validRecords)),
                                      rep_errors = errs \<rparr>,
                                db', queries @ [HttpGet] @ calls)))))))"

section \<open>A runtime and a store for the examples\<close>

text \<open>
  A concrete runtime: its conversions are those of ECMAScript on the integers and on the
  strings that the examples use (decimal numerals, the names of the infinities, one ISO
  timestamp); the driver accepts integer ids in the range of \<open>INT\<close>, values that fit
  \<open>DECIMAL(10,2)\<close>, names and statuses within their column widths, and valid dates.
\<close>

definition Number_toString0 :: "jsnum \<Rightarrow> string" where
  "Number_toString0 n =
     (case n of NaN \<Rightarrow> ''NaN'' | PosInf \<Rightarrow> ''Infinity'' | NegInf \<Rightarrow> ''-Infinity''
      | Fin x \<Rightarrow> show_int \<lfloor>x\<rfloor>)"

fun digits_value :: "string \<Rightarrow> nat \<Rightarrow> nat option" where
  "digits_value [] acc = Some acc"
| "digits_value (c # cs) acc =
     (if (48::nat) \<le> of_char c then
        (if of_char c \<le> (57::nat) then digits_value cs (10 * acc + (of_char c - 48)) else None)
      else None)"

definition parse_number0 :: "string \<Rightarrow> jsnum" where
  "parse_number0 s =
     (if s = ''Infinity'' then PosInf
      else if s = ''-Infinity'' then NegInf
      else if s = [] then NaN
      else if hd s = CHR ''-'' then
        (if tl s = [] then NaN
         else (case digits_value (tl s) 0 of None \<Rightarrow> NaN | Some n \<Rightarrow> Fin (- real n)))
      else (case digits_value s 0 of None \<Rightarrow> NaN | Some n \<Rightarrow> Fin (real n)))"

definition parseInt0 :: "string \<Rightarrow> jsnum" where
  "parseInt0 s = (case parse_number0 s of PosInf \<Rightarrow> NaN | NegInf \<Rightarrow> NaN | n \<Rightarrow> n)"

definition StringToNumber0 :: "string \<Rightarrow> jsnum" where
  "StringToNumber0 s = (if trim s = [] then Fin 0 else parse_number0 (trim s))"

definition Date_parse0 :: "string \<Rightarrow> jsdate" where
  "Date_parse0 s =
     (if s = ''2024-01-15T10:30:00.000Z'' then DateAt 1705314600000 else InvalidDate)"

definition marshal0 :: "table_row \<Rightarrow> string + RecordDataType" where
  "marshal0 t =
     (case row_id t of
        Fin i \<Rightarrow>
          (case row_value t of
             Fin v \<Rightarrow>
               (case row_updatedAt t of
                  DateAt ms \<Rightarrow>
                    (if real_of_int \<lfloor>i\<rfloor> = i \<and> \<bar>i\<bar> < 2147483648 \<and> \<bar>v\<bar> < 100000000
                        \<and> length (row_name t) \<le> 255 \<and> length (row_status t) \<le> 50
                     then Inr \<lparr> src_Id = \<lfloor>i\<rfloor>, src_Name = row_name t,
                                src_Value = \<lfloor>v * 100 + 1 / 2\<rfloor>,
                                src_Status = row_status t, src_UpdatedAt = ms \<rparr>
                     else Inl ''Validation failed for parameter RecordData. Invalid value.'')
                | InvalidDate \<Rightarrow> Inl ''Validation failed for parameter RecordData. Invalid date.'')
           | _ \<Rightarrow> Inl ''Validation failed for parameter RecordData. Invalid number.'')
      | _ \<Rightarrow> Inl ''Validation failed for parameter RecordData. Invalid number.'')"

definition js0 :: runtime where
  "js0 = \<lparr> now = 1700000000000, Date_parse = Date_parse0, StringToNumber = StringToNumber0,
           Number_toString = Number_toString0, parseInt = parseInt0,
           parseFloat = parse_number0, marshal = marshal0 \<rparr>"

text \<open>The two records of the duplicate scenario, as the external API delivers them.\<close>

definition scenario_A :: ExternalApiRecord where
  "scenario_A = \<lparr> ext_id = Some (Fin 1), ext_name = Some ''A'', ext_value = JNum (Fin 10),
                   ext_status = Some ''Active'', lastModified = None \<rparr>"

definition scenario_B :: ExternalApiRecord where
  "scenario_B = \<lparr> ext_id = Some (Fin 1), ext_name = Some ''B'', ext_value = JNum (Fin 20),
                   ext_status = Some ''Active'', lastModified = None \<rparr>"

text \<open>A record for row 5 of the store, one without a name, one with an unparsable
  timestamp, one with an infinite value and one whose value is not a number.\<close>

definition for_row5 :: ExternalApiRecord where
  "for_row5 = \<lparr> ext_id = Some (Fin 5), ext_name = Some ''E'', ext_value = JNum (Fin 50),
                 ext_status = Some ''Pending'', lastModified = Some ''2024-01-15T10:30:00.000Z'' \<rparr>"

definition nameless :: ExternalApiRecord where
  "nameless = \<lparr> ext_id = Some (Fin 1), ext_name = Some ''  '', ext_value = JNum (Fin 10),
                 ext_status = Some ''Active'', lastModified = None \<rparr>"

definition bad_timestamp :: ExternalApiRecord where
  "bad_timestamp = \<lparr> ext_id = Some (Fin 2), ext_name = Some ''C'', ext_value = JNum (Fin 30),
                      ext_status = Some ''Active'', lastModified = Some ''not a date'' \<rparr>"

definition infinite_value :: ExternalApiRecord where
  "infinite_value = \<lparr> ext_id = Some (Fin 3), ext_name = Some ''D'', ext_value = JNum PosInf,
                       ext_status = Some ''Active'', lastModified = None \<rparr>"

definition text_value :: ExternalApiRecord where
  "text_value = \<lparr> ext_id = Some (Fin 4), ext_name = Some ''F'', ext_value = JStr ''abc'',
                   ext_status = Some ''Active'', lastModified = None \<rparr>"

text \<open>A store with an open row 1 and a closed row 5, with and without the procedure.\<close>

definition row1 :: row where
  "row1 = \<lparr> tgt_Id = 1, tgt_Name = ''old 1'', tgt_Value = 100, tgt_Status = ''Active'',
             isOpen = True, tgt_CreatedAt = Some 0, tgt_UpdatedAt = Some 0 \<rparr>"

definition row5 :: row where
  "row5 = \<lparr> tgt_Id = 5, tgt_Name = ''old 5'', tgt_Value = 500, tgt_Status = ''Done'',
             isOpen = False, tgt_CreatedAt = Some 0, tgt_UpdatedAt = Some 0 \<rparr>"

definition db0 :: database where
  "db0 = \<lparr> table_types = [''RecordDataType''], procedures = [''sp_UpdateOpenRecords''],
            parameters = [(''@RecordData'', ''RecordDataType'')],
            YourTableName = [row1, row5] \<rparr>"

definition db_no_proc :: database where
  "db_no_proc = \<lparr> table_types = [''RecordDataType''], procedures = [],
                   parameters = [], YourTableName = [row1, row5] \<rparr>"

text \<open>A deadlock that stops the update after it has written one row.\<close>

definition deadlock :: fault where
  "deadlock = UpdateFault 1 ''deadlock''"

definition no_query_fault :: "nat \<Rightarrow> string option" where
  "no_query_fault i = None"

text \<open>
  The accepted records of the batch \<open>[scenario_A, scenario_B, for_row5]\<close>, the source rows
  the driver makes of them, and row 1 after the update.
\<close>

definition accepted0 :: "RecordData list" where
  "accepted0 =
     [\<lparr> rec_id = Some (Fin 1), rec_name = ''A'', rec_value = Fin 10, rec_status = ''Active'',
         updatedAt = Some (DateAt 1700000000000) \<rparr>,
      \<lparr> rec_id = Some (Fin 5), rec_name = ''E'', rec_value = Fin 50, rec_status = ''Pending'',
         updatedAt = Some (DateAt 1705314600000) \<rparr>]"

definition source0 :: "RecordDataType list" where
  "source0 =
     [\<lparr> src_Id = 1, src_Name = ''A'', src_Value = 1000, src_Status = ''Active'',
         src_UpdatedAt = 1700000000000 \<rparr>,
      \<lparr> src_Id = 5, src_Name = ''E'', src_Value = 5000, src_Status = ''Pending'',
         src_UpdatedAt = 1705314600000 \<rparr>]"

definition row1_after :: row where
  "row1_after = \<lparr> tgt_Id = 1, tgt_Name = ''A'', tgt_Value = 1000, tgt_Status = ''Active'',
                   isOpen = True, tgt_CreatedAt = Some 0, tgt_UpdatedAt = Some 1700000000000 \<rparr>"

section \<open>Notions used in the statements\<close>

text \<open>The statistics the procedure selects after a committed update.\<close>

definition stats_of :: "RecordDataType list \<Rightarrow> row list \<Rightarrow> stats" where
  "stats_of src t =
     \<lparr> UpdatedCount = int (length (filter (is_updated src) t)),
       SkippedCount = int (length src) - int (length (filter (is_updated src) t)),
       TotalInputRecords = int (length src) \<rparr>"

text \<open>A record passes the checks on its own fields (every check but the duplicate check).\<close>

definition passes_field_checks :: "RecordData \<Rightarrow> bool" where
  "passes_field_checks r = (check_id r @ check_name r @ check_value r @ check_status r = [])"

text \<open>A call that only reads the catalog.\<close>

fun is_query :: "call \<Rightarrow> bool" where
  "is_query (Query q) = True"
| "is_query HttpGet = False"
| "is_query (Execute p) = False"

section \<open>Evaluation of the examples\<close>

lemmas example_defs =
  scenario_A_def scenario_B_def for_row5_def nameless_def bad_timestamp_def
  infinite_value_def text_value_def row1_def row5_def db0_def db_no_proc_def
  no_query_fault_def deadlock_def js0_def accepted0_def source0_def row1_after_def

lemmas transform_defs =
  transformExternalData_def transform_record_def transform_name_def transform_value_def
  transform_status_def transform_updatedAt_def trim_def is_ws_def
  StringToNumber0_def parse_number0_def Date_parse0_def

lemmas validate_defs =
  validateRecords_def recordErrors_def check_id_def check_name_def check_value_def
  check_status_def check_duplicate_def findIndex_def error_line_def show_int_def
  digit_char_def Number_toString0_def Let_def

lemmas update_defs =
  updateOpenRecords_def table_row_of_def or_zero_def parseInt0_def execute_def
  marshal0_def sp_UpdateOpenRecords_def UPDATE_target_def update_target_def
  is_updated_def joined_def rethrown_def

lemmas pipeline_defs =
  fetchAndUpdateRecords_def verifyDatabaseObjects_def parameter_issues_def
  verification_error_def quoted_def failed_def

lemma accepted0_eval:
  "validateRecords js0 (transformExternalData js0 [scenario_A, scenario_B, for_row5]) []
     = (accepted0, [''Record 2 (ID: 1): Duplicate ID found at index 0''])"
  by (simp add: example_defs transform_defs validate_defs)

lemma accepted0_length: "length accepted0 = 2" "accepted0 \<noteq> []"
  by (simp_all add: accepted0_def)

lemma table0_eval:
  "add_rows js0 accepted0 0 [] =
     Inr [\<lparr> row_id = Fin 1, row_name = ''A'', row_value = Fin 10, row_status = ''Active'',
              row_updatedAt = DateAt 1700000000000 \<rparr>,
          \<lparr> row_id = Fin 5, row_name = ''E'', row_value = Fin 50, row_status = ''Pending'',
              row_updatedAt = DateAt 1705314600000 \<rparr>]"
  by (simp add: example_defs update_defs validate_defs transform_defs)

lemma source0_eval:
  "marshal_rows js0
     [\<lparr> row_id = Fin 1, row_name = ''A'', row_value = Fin 10, row_status = ''Active'',
         row_updatedAt = DateAt 1700000000000 \<rparr>,
      \<lparr> row_id = Fin 5, row_name = ''E'', row_value = Fin 50, row_status = ''Pending'',
         row_updatedAt = DateAt 1705314600000 \<rparr>] = Inr source0"
  by (simp add: example_defs update_defs)

lemma update0_eval:
  "update_target source0 row1 = row1_after"
  "update_target source0 row5 = row5"
  by (simp_all add: example_defs update_defs)

lemma run0_eval:
  "updateOpenRecords js0 NoFault (Some accepted0) db0
     = (Inr \<lparr> updated = 1, skipped = 1 \<rparr>, db0\<lparr> YourTableName := [row1_after, row5] \<rparr>,
        [Execute ''sp_UpdateOpenRecords''])"
  by (simp add: example_defs update_defs validate_defs transform_defs)

lemma run_fault_eval:
  "updateOpenRecords js0 deadlock (Some accepted0) db0
     = (Inl ''Failed to update records: deadlock'', db0, [Execute ''sp_UpdateOpenRecords''])"
  by (simp add: example_defs update_defs validate_defs transform_defs)

lemma preflight0_eval:
  "verifyDatabaseObjects no_query_fault db0
     = (\<lparr> tableTypeExists = True, storedProcExists = True, issues = [] \<rparr>,
        [Query ''sys.table_types'', Query ''sys.procedures'', Query ''sys.parameters''])"
  by (simp add: example_defs pipeline_defs)

lemma pipeline0_eval:
  "fetchAndUpdateRecords js0 no_query_fault NoFault
      (Records [scenario_A, scenario_B, for_row5]) db0
     = (Inr \<lparr> fetched = 3, rep_updated = 1, rep_skipped = 2,
               rep_errors = [''Record 2 (ID: 1): Duplicate ID found at index 0''] \<rparr>,
        db0\<lparr> YourTableName := [row1_after, row5] \<rparr>,
        [Query ''sys.table_types'', Query ''sys.procedures'', Query ''sys.parameters'',
         HttpGet, Execute ''sp_UpdateOpenRecords''])"
  by (simp add: fetchAndUpdateRecords_def preflight0_eval accepted0_eval run0_eval
      accepted0_length)

lemma pipeline_fault_eval:
  "fetchAndUpdateRecords js0 no_query_fault deadlock
      (Records [scenario_A, scenario_B, for_row5]) db0
     = (Inl failed, db0,
        [Query ''sys.table_types'', Query ''sys.procedures'', Query ''sys.parameters'',
         HttpGet, Execute ''sp_UpdateOpenRecords''])"
  by (simp add: fetchAndUpdateRecords_def preflight0_eval accepted0_eval run_fault_eval
      accepted0_length)

section \<open>The empty batch\<close>

text \<open>
  C10: called with \<open>null\<close> or with an empty list, \<open>updateOpenRecords\<close> returns
  \<open>{updated: 0, skipped: 0}\<close>, leaves the database as it is and makes no call to the
  store, whatever the runtime, the fault and the database.
\<close>

theorem updateOpenRecords_empty:
  "updateOpenRecords js f None db = (Inr \<lparr> updated = 0, skipped = 0 \<rparr>, db, [])
   \<and> updateOpenRecords js f (Some []) db = (Inr \<lparr> updated = 0, skipped = 0 \<rparr>, db, [])"
  by (simp add: updateOpenRecords_def)

theorem updateOpenRecords_empty_witness:
  "updateOpenRecords js0 (RequestFault ''connection lost'') None db_no_proc
     = (Inr \<lparr> updated = 0, skipped = 0 \<rparr>, db_no_proc, [])
   \<and> updateOpenRecords js0 deadlock (Some []) db0
     = (Inr \<lparr> updated = 0, skipped = 0 \<rparr>, db0, [])"
  using updateOpenRecords_empty [of js0 "RequestFault ''connection lost''" db_no_proc]
    updateOpenRecords_empty [of js0 deadlock db0]
  by simp

section \<open>The bulk update\<close>

lemma update_target_closed: "\<not> isOpen t \<Longrightarrow> update_target src t = t"
  by (simp add: update_target_def)

lemma sp_failure: "sp_UpdateOpenRecords f src t = (Inl e, t') \<Longrightarrow> t' = t"
  by (auto simp: sp_UpdateOpenRecords_def UPDATE_target_def Let_def split: fault.splits)

lemma sp_success:
  "sp_UpdateOpenRecords f src t = (Inr rs, t') \<Longrightarrow>
     t' = map (update_target src) t \<and> rs = [stats_of src t]"
  by (auto simp: sp_UpdateOpenRecords_def UPDATE_target_def Let_def stats_of_def split: fault.splits)

lemma execute_failure: "execute js f db table = (Inl e, db') \<Longrightarrow> db' = db"
  by (auto simp: execute_def split: fault.splits if_splits sum.splits prod.splits dest: sp_failure)

lemma execute_success:
  "execute js f db table = (Inr rs, db') \<Longrightarrow>
     \<exists>src. marshal_rows js table = Inr src
       \<and> db' = db\<lparr> YourTableName := map (update_target src) (YourTableName db) \<rparr>
       \<and> rs = [stats_of src (YourTableName db)]"
  by (auto simp: execute_def split: fault.splits if_splits sum.splits prod.splits dest: sp_success)

lemma add_rows_length: "add_rows js rs i acc = Inr table \<Longrightarrow> length table = length acc + length rs"
  by (induction rs arbitrary: i acc) (auto split: sum.splits)

lemma marshal_rows_length: "marshal_rows js table = Inr src \<Longrightarrow> length src = length table"
  by (induction table arbitrary: src) (auto split: sum.splits)

lemma updateOpenRecords_failure:
  "updateOpenRecords js f records db = (Inl e, db', calls) \<Longrightarrow> db' = db"
  by (auto simp: updateOpenRecords_def split: option.splits if_splits sum.splits prod.splits list.splits
      dest: execute_failure execute_success)

lemma updateOpenRecords_success:
  "updateOpenRecords js f records db = (Inr st, db', calls) \<Longrightarrow>
     (db' = db \<and> calls = [] \<and> updated st = 0 \<and> skipped st = 0 \<and> (records = None \<or> records = Some []))
     \<or> (\<exists>rs table src. records = Some rs \<and> rs \<noteq> [] \<and> add_rows js rs 0 [] = Inr table
           \<and> marshal_rows js table = Inr src
           \<and> db' = db\<lparr> YourTableName := map (update_target src) (YourTableName db) \<rparr>
           \<and> updated st = UpdatedCount (stats_of src (YourTableName db))
           \<and> skipped st = SkippedCount (stats_of src (YourTableName db))
           \<and> calls = [Execute ''sp_UpdateOpenRecords''])"
  by (auto simp: updateOpenRecords_def split: option.splits if_splits sum.splits prod.splits list.splits
      dest!: execute_success)

lemma updateOpenRecords_table:
  "updateOpenRecords js f records db = (res, db', calls) \<Longrightarrow>
     db' = db \<or> (\<exists>src. db' = db\<lparr> YourTableName := map (update_target src) (YourTableName db) \<rparr>)"
  by (cases res) (auto dest: updateOpenRecords_failure updateOpenRecords_success)

lemma updateOpenRecords_counts:
  assumes "updateOpenRecords js f (Some rs) db = (Inr st, db', calls)"
  shows "updated st + skipped st = int (length rs)"
proof -
  from updateOpenRecords_success [OF assms]
  consider "updated st = 0" "skipped st = 0" "rs = []"
    | table src where "add_rows js rs 0 [] = Inr table" "marshal_rows js table = Inr src"
        "updated st = UpdatedCount (stats_of src (YourTableName db))"
        "skipped st = SkippedCount (stats_of src (YourTableName db))"
    by auto
  then show ?thesis
  proof cases
    case 1
    then show ?thesis by simp
  next
    case 2
    from 2(1) have "length table = length rs" by (auto dest: add_rows_length)
    moreover from 2(2) have "length src = length table" by (rule marshal_rows_length)
    ultimately show ?thesis using 2(3,4) by (simp add: stats_of_def)
  qed
qed

text \<open>
  C1: whatever batch \<open>updateOpenRecords\<close> is given, and whether the store operation
  succeeds or fails, the table keeps its length and every row whose \<open>isOpen\<close> flag is
  false is the same row afterwards, in all of its columns, \<open>isOpen\<close> included. Only
  open rows are mutated.
\<close>

theorem closed_rows_unchanged:
  assumes "updateOpenRecords js f records db = (res, db', calls)"
  shows "length (YourTableName db') = length (YourTableName db)
     \<and> (\<forall>i < length (YourTableName db).
          \<not> isOpen (YourTableName db ! i) \<longrightarrow> YourTableName db' ! i = YourTableName db ! i)"
  using updateOpenRecords_table [OF assms] by (auto simp: update_target_closed)

theorem closed_rows_unchanged_witness:
  "updateOpenRecords js0 NoFault (Some accepted0) db0
     = (Inr \<lparr> updated = 1, skipped = 1 \<rparr>, db0\<lparr> YourTableName := [row1_after, row5] \<rparr>,
        [Execute ''sp_UpdateOpenRecords''])
   \<and> isOpen (YourTableName db0 ! 1) = False
   \<and> tgt_Id (YourTableName db0 ! 1) = src_Id (source0 ! 1)
   \<and> YourTableName (db0\<lparr> YourTableName := [row1_after, row5] \<rparr>) ! 1 = YourTableName db0 ! 1"
proof -
  have len: "1 < length (YourTableName db0)"
    by (simp add: db0_def)
  have closed: "isOpen (YourTableName db0 ! 1) = False"
    by (simp add: db0_def row5_def)
  have same_id: "tgt_Id (YourTableName db0 ! 1) = src_Id (source0 ! 1)"
    by (simp add: db0_def row5_def source0_def)
  from closed_rows_unchanged [OF run0_eval] len closed
  have kept: "YourTableName (db0\<lparr> YourTableName := [row1_after, row5] \<rparr>) ! 1
      = YourTableName db0 ! 1"
    by blast
  show ?thesis
    by (rule conjI [OF run0_eval conjI [OF closed conjI [OF same_id kept]]])
qed

text \<open>
  C2: the bulk update is atomic. The procedure either commits the update of every eligible
  row together with the statistics, or, when the \<open>UPDATE\<close> fails after writing some rows,
  restores the table and throws the same error. \<open>updateOpenRecords\<close> that throws leaves the
  database as it was, and one that returns has updated every eligible row and reports the
  procedure's counts. \<open>fetchAndUpdateRecords\<close> that throws leaves the database as it was,
  and it throws whenever \<open>updateOpenRecords\<close> throws on the accepted records.
\<close>

theorem bulk_update_atomic:
  "sp_UpdateOpenRecords f src t =
     (case f of
        UpdateFault k msg \<Rightarrow> (Inl msg, t)
      | RequestFault msg \<Rightarrow> (Inr [stats_of src t], map (update_target src) t)
      | NoFault \<Rightarrow> (Inr [stats_of src t], map (update_target src) t))
   \<and> (updateOpenRecords js f records db = (res, db', calls) \<longrightarrow>
      (case res of
         Inl e \<Rightarrow> db' = db
       | Inr st \<Rightarrow>
           (db' = db \<and> calls = [] \<and> (records = None \<or> records = Some []))
           \<or> (\<exists>rs table source. records = Some rs \<and> add_rows js rs 0 [] = Inr table
                 \<and> marshal_rows js table = Inr source
                 \<and> db' = db\<lparr> YourTableName := map (update_target source) (YourTableName db) \<rparr>
                 \<and> updated st = UpdatedCount (stats_of source (YourTableName db))
                 \<and> skipped st = SkippedCount (stats_of source (YourTableName db)))))
   \<and> (fetchAndUpdateRecords js qf f resp db = (Inl exc, db'', calls') \<longrightarrow> db'' = db)
   \<and> (issues (fst (verifyDatabaseObjects qf db)) = []
        \<and> fst (validateRecords js (transformExternalData js externalRecords) []) \<noteq> []
        \<and> fst (updateOpenRecords js f
                  (Some (fst (validateRecords js (transformExternalData js externalRecords) [])))
                  db) = Inl e'
      \<longrightarrow> fst (fetchAndUpdateRecords js qf f (Records externalRecords) db) = Inl failed)"
proof (intro conjI impI)
  show "sp_UpdateOpenRecords f src t =
     (case f of
        UpdateFault k msg \<Rightarrow> (Inl msg, t)
      | RequestFault msg \<Rightarrow> (Inr [stats_of src t], map (update_target src) t)
      | NoFault \<Rightarrow> (Inr [stats_of src t], map (update_target src) t))"
    by (simp add: sp_UpdateOpenRecords_def UPDATE_target_def stats_of_def Let_def
        split: fault.splits)
next
  assume run: "updateOpenRecords js f records db = (res, db', calls)"
  show "case res of
         Inl e \<Rightarrow> db' = db
       | Inr st \<Rightarrow>
           (db' = db \<and> calls = [] \<and> (records = None \<or> records = Some []))
           \<or> (\<exists>rs table source. records = Some rs \<and> add_rows js rs 0 [] = Inr table
                 \<and> marshal_rows js table = Inr source
                 \<and> db' = db\<lparr> YourTableName := map (update_target source) (YourTableName db) \<rparr>
                 \<and> updated st = UpdatedCount (stats_of source (YourTableName db))
                 \<and> skipped st = SkippedCount (stats_of source (YourTableName db)))"
  proof (cases res)
    case (Inl e)
    with run show ?thesis by (auto dest: updateOpenRecords_failure)
  next
    case (Inr st)
    with updateOpenRecords_success [of js f records db st db' calls] run
    show ?thesis by auto
  qed
next
  assume "fetchAndUpdateRecords js qf f resp db = (Inl exc, db'', calls')"
  then show "db'' = db"
    by (auto simp: fetchAndUpdateRecords_def
        split: prod.splits if_splits response.splits sum.splits
        dest: updateOpenRecords_failure)
next
  assume "issues (fst (verifyDatabaseObjects qf db)) = []
        \<and> fst (validateRecords js (transformExternalData js externalRecords) []) \<noteq> []
        \<and> fst (updateOpenRecords js f
                  (Some (fst (validateRecords js (transformExternalData js externalRecords) [])))
                  db) = Inl e'"
  then show "fst (fetchAndUpdateRecords js qf f (Records externalRecords) db) = Inl failed"
    by (auto simp: fetchAndUpdateRecords_def split: prod.splits sum.splits)
qed

theorem bulk_update_atomic_witness:
  "snd (UPDATE_target deadlock source0 [row1, row5]) = [row1_after, row5]
   \<and> sp_UpdateOpenRecords deadlock source0 [row1, row5] = (Inl ''deadlock'', [row1, row5])
   \<and> updateOpenRecords js0 deadlock (Some accepted0) db0
        = (Inl ''Failed to update records: deadlock'', db0, [Execute ''sp_UpdateOpenRecords''])
   \<and> fetchAndUpdateRecords js0 no_query_fault deadlock
          (Records [scenario_A, scenario_B, for_row5]) db0
        = (Inl failed, db0,
           [Query ''sys.table_types'', Query ''sys.procedures'', Query ''sys.parameters'',
            HttpGet, Execute ''sp_UpdateOpenRecords''])"
proof -
  have written: "snd (UPDATE_target deadlock source0 [row1, row5]) = [row1_after, row5]"
    by (simp add: deadlock_def UPDATE_target_def update0_eval)
  from bulk_update_atomic [of deadlock source0 "[row1, row5]"]
  have rolled_back:
    "sp_UpdateOpenRecords deadlock source0 [row1, row5] = (Inl ''deadlock'', [row1, row5])"
    by (simp add: deadlock_def)
  show ?thesis
    by (rule conjI [OF written conjI [OF rolled_back conjI [OF run_fault_eval pipeline_fault_eval]]])
qed

text \<open>
  C3: when \<open>fetchAndUpdateRecords\<close> returns a report, \<open>updated + skipped\<close> equals
  \<open>fetched\<close>; \<open>fetched\<close> is the number of records fetched from the API when the
  preflight raised no issue, and 0 when it did, as nothing is fetched then.
\<close>

theorem report_accounts_for_every_record:
  assumes "fetchAndUpdateRecords js qf f resp db = (Inr rep, db', calls)"
  shows "rep_updated rep + rep_skipped rep = fetched rep
     \<and> (if issues (fst (verifyDatabaseObjects qf db)) = []
        then (case resp of Records externalRecords \<Rightarrow> fetched rep = int (length externalRecords)
              | _ \<Rightarrow> False)
        else fetched rep = 0)"
  using assms
  by (auto simp: fetchAndUpdateRecords_def
      split: prod.splits if_splits response.splits sum.splits
      dest: updateOpenRecords_counts)

theorem report_accounts_for_every_record_witness:
  "fetchAndUpdateRecords js0 no_query_fault NoFault
      (Records [scenario_A, scenario_B, for_row5]) db0
     = (Inr \<lparr> fetched = 3, rep_updated = 1, rep_skipped = 2,
               rep_errors = [''Record 2 (ID: 1): Duplicate ID found at index 0''] \<rparr>,
        db0\<lparr> YourTableName := [row1_after, row5] \<rparr>,
        [Query ''sys.table_types'', Query ''sys.procedures'', Query ''sys.parameters'',
         HttpGet, Execute ''sp_UpdateOpenRecords''])
   \<and> (1::int) + 2 = 3
   \<and> int (length [scenario_A, scenario_B, for_row5]) = 3"
  using report_accounts_for_every_record [OF pipeline0_eval]
  by (simp add: pipeline0_eval)

section \<open>The validator\<close>

lemma validate_loop_append:
  "validate_loop js (xs @ ys) i st = validate_loop js ys (i + length xs) (validate_loop js xs i st)"
proof (induction xs arbitrary: i st)
  case Nil
  then show ?case by simp
next
  case (Cons x xs)
  obtain v e where st: "st = (v, e)" by (cases st)
  show ?case unfolding st using Cons.IH by simp
qed

lemma validate_loop_extends:
  "\<exists>zs. fst (validate_loop js rs i (v, e)) = v @ zs"
proof (induction rs arbitrary: i v e)
  case Nil
  then show ?case by simp
next
  case (Cons r rs)
  show ?case
  proof (cases "recordErrors v r = []")
    case True
    from Cons.IH [of "i + 1" "v @ [r]" e] True show ?thesis by auto
  next
    case False
    from Cons.IH [of "i + 1" v "e @ [error_line js i r (recordErrors v r)]"] False
    show ?thesis by auto
  qed
qed

lemma findIndex_from_none:
  "0 \<le> i \<Longrightarrow> (findIndex_from p xs i = - 1) = (\<forall>x \<in> set xs. \<not> p x)"
proof (induction xs arbitrary: i)
  case Nil
  then show ?case by simp
next
  case (Cons x xs)
  from Cons.IH [of "i + 1"] Cons.prems show ?case by auto
qed

lemma strict_eq_valid_id:
  "check_id x = [] \<Longrightarrow> strict_eq (rec_id x) (rec_id r) = (rec_id x = rec_id r)"
  by (cases "rec_id x"; cases "rec_id r"; cases "the (rec_id x)")
     (auto simp: check_id_def split: if_splits)

lemma check_duplicate_none:
  assumes "\<forall>x \<in> set v. check_id x = []"
  shows "(check_duplicate v r = []) = (rec_id r \<notin> rec_id ` set v)"
proof -
  have "(check_duplicate v r = []) = (\<forall>x \<in> set v. \<not> strict_eq (rec_id x) (rec_id r))"
    by (simp add: check_duplicate_def findIndex_def Let_def findIndex_from_none)
  also have "\<dots> = (\<forall>x \<in> set v. rec_id x \<noteq> rec_id r)"
    using assms by (simp add: strict_eq_valid_id)
  also have "\<dots> = (rec_id r \<notin> rec_id ` set v)" by (simp add: image_iff) metis
  finally show ?thesis .
qed

lemma recordErrors_none:
  assumes "\<forall>x \<in> set v. check_id x = []"
  shows "(recordErrors v r = []) = (passes_field_checks r \<and> rec_id r \<notin> rec_id ` set v)"
  using check_duplicate_none [OF assms, of r]
  by (auto simp: recordErrors_def passes_field_checks_def)

lemma validate_loop_invariant:
  assumes "\<forall>x \<in> set v. passes_field_checks x" "distinct (map rec_id v)"
  shows "(\<forall>x \<in> set (fst (validate_loop js rs i (v, e))). passes_field_checks x)
       \<and> distinct (map rec_id (fst (validate_loop js rs i (v, e))))"
  using assms
proof (induction rs arbitrary: i v e)
  case Nil
  then show ?case by simp
next
  case (Cons r rs)
  have ids: "\<forall>x \<in> set v. check_id x = []"
    using Cons.prems(1) by (simp add: passes_field_checks_def)
  show ?case
  proof (cases "recordErrors v r = []")
    case True
    with recordErrors_none [OF ids, of r]
    have ok: "passes_field_checks r" and fresh: "rec_id r \<notin> rec_id ` set v" by auto
    have 1: "\<forall>x \<in> set (v @ [r]). passes_field_checks x" using Cons.prems(1) ok by auto
    have 2: "distinct (map rec_id (v @ [r]))" using Cons.prems(2) fresh by auto
    have step: "validate_loop js (r # rs) i (v, e) = validate_loop js rs (i + 1) (v @ [r], e)"
      using True by simp
    show ?thesis unfolding step by (rule Cons.IH [OF 1 2])
  next
    case False
    have step: "validate_loop js (r # rs) i (v, e)
        = validate_loop js rs (i + 1) (v, e @ [error_line js i r (recordErrors v r)])"
      using False by simp
    show ?thesis unfolding step by (rule Cons.IH [OF Cons.prems])
  qed
qed

lemma validateRecords_accepted_ok:
  "(\<forall>x \<in> set (fst (validateRecords js records errs)). passes_field_checks x)
   \<and> distinct (map rec_id (fst (validateRecords js records errs)))"
  unfolding validateRecords_def by (rule validate_loop_invariant) simp_all

lemma validateRecords_snoc:
  "fst (validateRecords js (xs @ [r]) errs) =
     (if passes_field_checks r \<and> rec_id r \<notin> rec_id ` set (fst (validateRecords js xs errs))
      then fst (validateRecords js xs errs) @ [r]
      else fst (validateRecords js xs errs))"
proof -
  obtain v e where run: "validate_loop js xs 0 ([], errs) = (v, e)"
    by (cases "validate_loop js xs 0 ([], errs)")
  have v: "v = fst (validateRecords js xs errs)" by (simp add: validateRecords_def run)
  have ids: "\<forall>x \<in> set v. check_id x = []"
    using validateRecords_accepted_ok [of js xs errs] unfolding v
    by (simp add: passes_field_checks_def)
  have "fst (validateRecords js (xs @ [r]) errs) = (if recordErrors v r = [] then v @ [r] else v)"
    by (simp add: validateRecords_def validate_loop_append run)
  with recordErrors_none [OF ids, of r] show ?thesis unfolding v by simp
qed

lemma validateRecords_extends:
  "\<exists>zs. fst (validateRecords js (xs @ ys) errs) = fst (validateRecords js xs errs) @ zs"
proof -
  obtain v e where run: "validate_loop js xs 0 ([], errs) = (v, e)"
    by (cases "validate_loop js xs 0 ([], errs)")
  from validate_loop_extends [of js ys "0 + length xs" v e]
  show ?thesis by (simp add: validateRecords_def validate_loop_append run)
qed

lemma canonical_eval:
  "transform_record js0 scenario_A = accepted0 ! 0"
  "transform_record js0 for_row5 = accepted0 ! 1"
  "transform_record js0 scenario_B =
     \<lparr> rec_id = Some (Fin 1), rec_name = ''B'', rec_value = Fin 20,
       rec_status = ''Active'', updatedAt = Some (DateAt 1700000000000) \<rparr>"
  by (simp_all add: example_defs transform_defs)

lemma first_accepted_eval:
  "fst (validateRecords js0 [transform_record js0 scenario_A] []) = [transform_record js0 scenario_A]"
  by (simp add: example_defs transform_defs validate_defs)

text \<open>
  C4, the claim as stated fails: in the batch of a record without a name and a later record
  with the same id, the first occurrence is rejected for its name and the later occurrence
  is accepted.
\<close>

theorem later_occurrence_accepted:
  "map rec_id (transformExternalData js0 [nameless, scenario_B]) = [Some (Fin 1), Some (Fin 1)]
   \<and> validateRecords js0 (transformExternalData js0 [nameless, scenario_B]) []
       = ([\<lparr> rec_id = Some (Fin 1), rec_name = ''B'', rec_value = Fin 20,
              rec_status = ''Active'', updatedAt = Some (DateAt 1700000000000) \<rparr>],
          [''Record 1 (ID: 1): Name is required''])"
  by (simp add: example_defs transform_defs validate_defs)

text \<open>
  C4, amended: the accepted records never contain two records with the same id; the record
  at any position of the batch is accepted exactly when it passes the checks on its own
  fields and no record accepted before it has its id, and it is rejected otherwise; records
  accepted in a prefix of the batch stay accepted. So every occurrence of an id after an
  accepted one is rejected, and the first occurrence is accepted when its fields are valid.
\<close>

theorem validateRecords_duplicate_ids:
  "distinct (map rec_id (fst (validateRecords js records errs)))
   \<and> (records = xs @ r # ys \<longrightarrow>
        fst (validateRecords js (xs @ [r]) errs) =
          (if passes_field_checks r \<and> rec_id r \<notin> rec_id ` set (fst (validateRecords js xs errs))
           then fst (validateRecords js xs errs) @ [r]
           else fst (validateRecords js xs errs))
        \<and> (\<exists>zs. fst (validateRecords js records errs)
                  = fst (validateRecords js (xs @ [r]) errs) @ zs))"
proof (intro conjI impI)
  show "distinct (map rec_id (fst (validateRecords js records errs)))"
    using validateRecords_accepted_ok [of js records errs] by simp
next
  show "fst (validateRecords js (xs @ [r]) errs) =
          (if passes_field_checks r \<and> rec_id r \<notin> rec_id ` set (fst (validateRecords js xs errs))
           then fst (validateRecords js xs errs) @ [r]
           else fst (validateRecords js xs errs))"
    by (rule validateRecords_snoc)
next
  assume "records = xs @ r # ys"
  then have "records = (xs @ [r]) @ ys" by simp
  then show "\<exists>zs. fst (validateRecords js records errs)
                  = fst (validateRecords js (xs @ [r]) errs) @ zs"
    using validateRecords_extends [of js "xs @ [r]" ys errs] by simp
qed

theorem validateRecords_duplicate_ids_witness:
  "transformExternalData js0 [scenario_A, scenario_B, for_row5]
     = [transform_record js0 scenario_A] @ transform_record js0 scenario_B
         # [transform_record js0 for_row5]
   \<and> distinct (map rec_id
         (fst (validateRecords js0 (transformExternalData js0 [scenario_A, scenario_B, for_row5]) [])))
   \<and> passes_field_checks (transform_record js0 scenario_B)
   \<and> rec_id (transform_record js0 scenario_B)
        \<in> rec_id ` set (fst (validateRecords js0 [transform_record js0 scenario_A] []))
   \<and> fst (validateRecords js0 ([transform_record js0 scenario_A] @ [transform_record js0 scenario_B]) [])
        = fst (validateRecords js0 [transform_record js0 scenario_A] [])"
proof -
  have decomposed: "transformExternalData js0 [scenario_A, scenario_B, for_row5]
     = [transform_record js0 scenario_A] @ transform_record js0 scenario_B
         # [transform_record js0 for_row5]"
    by (simp add: transformExternalData_def)
  have ok: "passes_field_checks (transform_record js0 scenario_B)"
    by (simp add: canonical_eval passes_field_checks_def validate_defs)
  have seen: "rec_id (transform_record js0 scenario_B)
        \<in> rec_id ` set (fst (validateRecords js0 [transform_record js0 scenario_A] []))"
    by (simp add: first_accepted_eval) (simp add: canonical_eval accepted0_def)
  note inst = validateRecords_duplicate_ids
      [of js0 "transformExternalData js0 [scenario_A, scenario_B, for_row5]" "[]"
          "[transform_record js0 scenario_A]" "transform_record js0 scenario_B"
          "[transform_record js0 for_row5]"]
  from inst have d: "distinct (map rec_id
         (fst (validateRecords js0 (transformExternalData js0 [scenario_A, scenario_B, for_row5]) [])))"
    by blast
  from inst decomposed seen
  have rejected: "fst (validateRecords js0
          ([transform_record js0 scenario_A] @ [transform_record js0 scenario_B]) [])
        = fst (validateRecords js0 [transform_record js0 scenario_A] [])"
    by presburger
  show ?thesis
    by (rule conjI [OF decomposed conjI [OF d conjI [OF ok conjI [OF seen rejected]]]])
qed

text \<open>
  C6, the claim as stated fails: for the batch of the two records with id 1, the reason
  given for the second record does not name index 1.
\<close>

theorem duplicate_reported_at_index_one_fails:
  "snd (validateRecords js0 (transformExternalData js0 [scenario_A, scenario_B]) [])
     \<noteq> [''Record 2 (ID: 1): Duplicate ID found at index 1'']
   \<and> recordErrors [transform_record js0 scenario_A] (transform_record js0 scenario_B)
     \<noteq> [''Duplicate ID found at index 1'']"
  by (simp add: example_defs transform_defs validate_defs)

text \<open>
  C6, amended: for the batch of the two records with id 1, the validator accepts exactly
  the first record and rejects the second with the reason
  \<open>Duplicate ID found at index 0\<close>, in the line \<open>Record 2 (ID: 1): ...\<close>: the index in
  the reason is the position, counted from 0, of the accepted record with that id in the
  list of accepted records.
\<close>

theorem duplicate_scenario:
  "validateRecords js0 (transformExternalData js0 [scenario_A, scenario_B]) []
     = ([\<lparr> rec_id = Some (Fin 1), rec_name = ''A'', rec_value = Fin 10,
            rec_status = ''Active'', updatedAt = Some (DateAt (now js0)) \<rparr>],
        [''Record 2 (ID: 1): Duplicate ID found at index 0''])
   \<and> recordErrors [transform_record js0 scenario_A] (transform_record js0 scenario_B)
     = [''Duplicate ID found at index 0'']"
  by (simp add: example_defs transform_defs validate_defs)

text \<open>
  C8, the claim as stated fails: a record whose value is \<open>Infinity\<close> is accepted with
  that value.
\<close>

theorem infinite_value_accepted:
  "ext_value infinite_value = JNum PosInf
   \<and> map rec_value (fst (validateRecords js0 (transformExternalData js0 [infinite_value]) []))
       = [PosInf]"
  by (simp add: example_defs transform_defs validate_defs)

text \<open>
  C8, amended: every record that the validator accepts has a value that is not NaN, for
  every input (the value may be infinite: the validator checks \<open>isNaN\<close> only).
\<close>

theorem accepted_value_not_NaN:
  "\<forall>r \<in> set (fst (validateRecords js records errs)). rec_value r \<noteq> NaN"
proof
  fix r assume "r \<in> set (fst (validateRecords js records errs))"
  with validateRecords_accepted_ok [of js records errs]
  have "passes_field_checks r" by blast
  then have "check_value r = []" by (simp add: passes_field_checks_def)
  then show "rec_value r \<noteq> NaN"
    by (auto simp: check_value_def split: if_splits)
qed

theorem accepted_value_not_NaN_witness:
  "accepted0 ! 0 \<in> set (fst (validateRecords js0
       (transformExternalData js0 [scenario_A, scenario_B, for_row5]) []))
   \<and> rec_value (accepted0 ! 0) = Fin 10
   \<and> rec_value (accepted0 ! 0) \<noteq> NaN"
proof -
  have mem: "accepted0 ! 0 \<in> set (fst (validateRecords js0
       (transformExternalData js0 [scenario_A, scenario_B, for_row5]) []))"
    by (simp add: accepted0_eval) (simp add: accepted0_def)
  have val: "rec_value (accepted0 ! 0) = Fin 10" by (simp add: accepted0_def)
  from accepted_value_not_NaN [of js0 "transformExternalData js0 [scenario_A, scenario_B, for_row5]" "[]"] mem
  have "rec_value (accepted0 ! 0) \<noteq> NaN" by blast
  with mem val show ?thesis by blast
qed

section \<open>The normalizer\<close>

lemma transform_value_not_NaN: "transform_value js v \<noteq> NaN"
  by (cases "Number js v") (simp_all add: transform_value_def)

text \<open>
  C9: after \<open>transformExternalData\<close> the value of every record is not NaN (a raw value
  that \<open>Number\<close> turns into NaN becomes 0), its value check yields no reason, and
  \<open>Invalid value format\<close> is not among the reasons the validator collects for it,
  whatever records were accepted before.
\<close>

theorem normalized_value_never_NaN:
  "(\<forall>r \<in> set (transformExternalData js externalRecords).
      rec_value r \<noteq> NaN \<and> check_value r = []
      \<and> ''Invalid value format'' \<notin> set (recordErrors validRecords r))
   \<and> (isNaN (Number js v) \<longrightarrow> transform_value js v = Fin 0)"
proof (intro conjI ballI impI)
  fix r assume "r \<in> set (transformExternalData js externalRecords)"
  then obtain x where r: "r = transform_record js x"
    by (auto simp: transformExternalData_def)
  show nn: "rec_value r \<noteq> NaN"
    by (simp add: r transform_record_def transform_value_not_NaN)
  then show cv: "check_value r = []"
    by (cases "rec_value r") (simp_all add: check_value_def)
  show "''Invalid value format'' \<notin> set (recordErrors validRecords r)"
    by (simp add: recordErrors_def cv check_id_def check_name_def check_status_def
        check_duplicate_def Let_def split: option.splits)
next
  assume "isNaN (Number js v)"
  then show "transform_value js v = Fin 0"
    by (cases "Number js v") (simp_all add: transform_value_def)
qed

theorem normalized_value_never_NaN_witness:
  "Number js0 (ext_value text_value) = NaN
   \<and> map rec_value (transformExternalData js0 [text_value]) = [Fin 0]
   \<and> ''Invalid value format'' \<notin> set (recordErrors [] (transform_record js0 text_value))"
proof -
  have nan: "Number js0 (ext_value text_value) = NaN"
    by (simp add: example_defs transform_defs)
  note inst = normalized_value_never_NaN [of js0 "[text_value]" "[]" "ext_value text_value"]
  have mem: "transform_record js0 text_value \<in> set (transformExternalData js0 [text_value])"
    by (simp add: transformExternalData_def)
  from inst mem
  have unreachable:
    "''Invalid value format'' \<notin> set (recordErrors [] (transform_record js0 text_value))"
    by blast
  from inst nan have "transform_value js0 (ext_value text_value) = Fin 0"
    by simp
  then have zero: "map rec_value (transformExternalData js0 [text_value]) = [Fin 0]"
    by (simp add: transformExternalData_def transform_record_def)
  from nan zero unreachable show ?thesis by blast
qed

text \<open>
  C7, the claim as stated fails: for a \<open>lastModified\<close> that does not parse, the record
  gets the invalid date, not the time of normalization.
\<close>

theorem unparsable_timestamp_kept:
  "lastModified bad_timestamp = Some ''not a date''
   \<and> Date_parse js0 ''not a date'' = InvalidDate
   \<and> map updatedAt (transformExternalData js0 [bad_timestamp]) = [Some InvalidDate]
   \<and> InvalidDate \<noteq> DateAt (now js0)"
  by (simp add: example_defs transform_defs)

text \<open>
  C7, amended: \<open>transformExternalData\<close> sets \<open>updatedAt\<close> to the time of normalization
  when \<open>lastModified\<close> is missing or the empty string; for every other \<open>lastModified\<close>
  it is the date that the \<open>Date\<close> constructor makes of the string, which is the invalid
  date when the string does not parse.
\<close>

theorem updatedAt_of_lastModified:
  assumes "i < length externalRecords"
  shows "(lastModified (externalRecords ! i) = None \<or> lastModified (externalRecords ! i) = Some []
            \<longrightarrow> updatedAt (transformExternalData js externalRecords ! i) = Some (DateAt (now js)))
       \<and> (\<forall>s. lastModified (externalRecords ! i) = Some s \<and> s \<noteq> []
            \<longrightarrow> updatedAt (transformExternalData js externalRecords ! i) = Some (Date_parse js s))"
  using assms
  by (auto simp: transformExternalData_def transform_record_def transform_updatedAt_def)

theorem updatedAt_of_lastModified_witness:
  "(0::nat) < length [scenario_A, for_row5, bad_timestamp]
   \<and> lastModified ([scenario_A, for_row5, bad_timestamp] ! 0) = None
   \<and> updatedAt (transformExternalData js0 [scenario_A, for_row5, bad_timestamp] ! 0)
       = Some (DateAt (now js0))
   \<and> lastModified ([scenario_A, for_row5, bad_timestamp] ! 1) = Some ''2024-01-15T10:30:00.000Z''
   \<and> updatedAt (transformExternalData js0 [scenario_A, for_row5, bad_timestamp] ! 1)
       = Some (DateAt 1705314600000)"
proof -
  have l0: "lastModified ([scenario_A, for_row5, bad_timestamp] ! 0) = None"
    by (simp add: scenario_A_def)
  have l1: "lastModified ([scenario_A, for_row5, bad_timestamp] ! 1) = Some ''2024-01-15T10:30:00.000Z''"
    by (simp add: for_row5_def)
  have p: "Date_parse js0 ''2024-01-15T10:30:00.000Z'' = DateAt 1705314600000"
    by (simp add: js0_def Date_parse0_def)
  from updatedAt_of_lastModified [of 0 "[scenario_A, for_row5, bad_timestamp]" js0] l0
  have u0: "updatedAt (transformExternalData js0 [scenario_A, for_row5, bad_timestamp] ! 0)
       = Some (DateAt (now js0))" by simp
  from updatedAt_of_lastModified [of 1 "[scenario_A, for_row5, bad_timestamp]" js0] l1 p
  have u1: "updatedAt (transformExternalData js0 [scenario_A, for_row5, bad_timestamp] ! 1)
       = Some (DateAt 1705314600000)" by simp
  from l0 l1 u0 u1 show ?thesis by simp
qed

section \<open>The preflight\<close>

lemma preflight_no_proc_eval:
  "verifyDatabaseObjects no_query_fault db_no_proc
     = (\<lparr> tableTypeExists = True, storedProcExists = False,
          issues = [''Stored procedure '' @ quoted ''sp_UpdateOpenRecords'' @ '' does not exist''] \<rparr>,
        [Query ''sys.table_types'', Query ''sys.procedures''])"
  by (simp add: example_defs verifyDatabaseObjects_def)

lemma verifyDatabaseObjects_queries: "list_all is_query (snd (verifyDatabaseObjects qf db))"
  by (simp add: verifyDatabaseObjects_def Let_def split: option.splits)

lemma verifyDatabaseObjects_missing:
  "\<not> tableTypeExists (fst (verifyDatabaseObjects qf db))
     \<or> \<not> storedProcExists (fst (verifyDatabaseObjects qf db))
   \<Longrightarrow> issues (fst (verifyDatabaseObjects qf db)) \<noteq> []"
  by (auto simp: verifyDatabaseObjects_def Let_def split: option.splits if_splits)

text \<open>
  C5, the claim as stated fails: with the procedure missing and two records at the API,
  the report has \<open>skipped = 0\<close>, not the length of the input.
\<close>

theorem preflight_failure_skipped_zero:
  "storedProcExists (fst (verifyDatabaseObjects no_query_fault db_no_proc)) = False
   \<and> fst (fetchAndUpdateRecords js0 no_query_fault NoFault
            (Records [scenario_A, scenario_B]) db_no_proc)
       = Inr \<lparr> fetched = 0, rep_updated = 0, rep_skipped = 0,
               rep_errors = [''Stored procedure '' @ quoted ''sp_UpdateOpenRecords''
                               @ '' does not exist''] \<rparr>
   \<and> (0::int) \<noteq> int (length [scenario_A, scenario_B])"
  by (simp add: fetchAndUpdateRecords_def preflight_no_proc_eval)

text \<open>
  C5, amended: when the preflight reports the table type or the procedure missing, or
  raises any other issue, \<open>fetchAndUpdateRecords\<close> returns the report with
  \<open>fetched = 0\<close>, \<open>updated = 0\<close>, \<open>skipped = 0\<close> and the issues as errors, leaves
  the database unchanged, and has made only the catalog queries of the preflight: no
  request to the API and no call of the procedure.
\<close>

theorem preflight_failure_short_circuits:
  "(\<not> tableTypeExists (fst (verifyDatabaseObjects qf db))
      \<or> \<not> storedProcExists (fst (verifyDatabaseObjects qf db))
     \<longrightarrow> issues (fst (verifyDatabaseObjects qf db)) \<noteq> [])
   \<and> (issues (fst (verifyDatabaseObjects qf db)) \<noteq> [] \<longrightarrow>
        fetchAndUpdateRecords js qf f resp db
          = (Inr \<lparr> fetched = 0, rep_updated = 0, rep_skipped = 0,
                    rep_errors = issues (fst (verifyDatabaseObjects qf db)) \<rparr>,
             db, snd (verifyDatabaseObjects qf db))
        \<and> list_all is_query (snd (verifyDatabaseObjects qf db)))"
proof (intro conjI impI)
  assume "\<not> tableTypeExists (fst (verifyDatabaseObjects qf db))
      \<or> \<not> storedProcExists (fst (verifyDatabaseObjects qf db))"
  then show "issues (fst (verifyDatabaseObjects qf db)) \<noteq> []"
    by (rule verifyDatabaseObjects_missing)
next
  assume "issues (fst (verifyDatabaseObjects qf db)) \<noteq> []"
  then show "fetchAndUpdateRecords js qf f resp db
          = (Inr \<lparr> fetched = 0, rep_updated = 0, rep_skipped = 0,
                    rep_errors = issues (fst (verifyDatabaseObjects qf db)) \<rparr>,
             db, snd (verifyDatabaseObjects qf db))"
    by (cases "verifyDatabaseObjects qf db") (simp add: fetchAndUpdateRecords_def)
next
  show "list_all is_query (snd (verifyDatabaseObjects qf db))"
    by (rule verifyDatabaseObjects_queries)
qed

theorem preflight_failure_short_circuits_witness:
  "storedProcExists (fst (verifyDatabaseObjects no_query_fault db_no_proc)) = False
   \<and> issues (fst (verifyDatabaseObjects no_query_fault db_no_proc))
       = [''Stored procedure '' @ quoted ''sp_UpdateOpenRecords'' @ '' does not exist'']
   \<and> fetchAndUpdateRecords js0 no_query_fault NoFault
          (Records [scenario_A, scenario_B, for_row5]) db_no_proc
       = (Inr \<lparr> fetched = 0, rep_updated = 0, rep_skipped = 0,
                 rep_errors = [''Stored procedure '' @ quoted ''sp_UpdateOpenRecords''
                                 @ '' does not exist''] \<rparr>,
          db_no_proc, [Query ''sys.table_types'', Query ''sys.procedures''])"
proof -
  have missing: "storedProcExists (fst (verifyDatabaseObjects no_query_fault db_no_proc)) = False"
    by (simp add: preflight_no_proc_eval)
  have found: "issues (fst (verifyDatabaseObjects no_query_fault db_no_proc))
       = [''Stored procedure '' @ quoted ''sp_UpdateOpenRecords'' @ '' does not exist'']"
    by (simp add: preflight_no_proc_eval)
  from preflight_failure_short_circuits [of no_query_fault db_no_proc js0 NoFault
      "Records [scenario_A, scenario_B, for_row5]"] missing
  have "fetchAndUpdateRecords js0 no_query_fault NoFault
          (Records [scenario_A, scenario_B, for_row5]) db_no_proc
       = (Inr \<lparr> fetched = 0, rep_updated = 0, rep_skipped = 0,
                 rep_errors = issues (fst (verifyDatabaseObjects no_query_fault db_no_proc)) \<rparr>,
          db_no_proc, snd (verifyDatabaseObjects no_query_fault db_no_proc))"
    by blast
  then have run: "fetchAndUpdateRecords js0 no_query_fault NoFault
          (Records [scenario_A, scenario_B, for_row5]) db_no_proc
       = (Inr \<lparr> fetched = 0, rep_updated = 0, rep_skipped = 0,
                 rep_errors = [''Stored procedure '' @ quoted ''sp_UpdateOpenRecords''
                                 @ '' does not exist''] \<rparr>,
          db_no_proc, [Query ''sys.table_types'', Query ''sys.procedures''])"
    by (simp add: preflight_no_proc_eval)
  show ?thesis
    by (rule conjI [OF missing conjI [OF found run]])
qed

end
